theory Spec2Isabelle
  imports Main "HOL-Library.Sublist" "HOL-Library.Multiset"
begin

section \<open>JSON values and the Python operations the handlers apply to them\<close>

text \<open>
  The Flask handler works on whatever \<^verbatim>\<open>request.get_json()\<close> parsed: a JSON value.
  Python's \<^verbatim>\<open>None\<close>, \<^verbatim>\<open>bool\<close>, \<^verbatim>\<open>int\<close>, \<^verbatim>\<open>str\<close>, \<^verbatim>\<open>list\<close> and \<^verbatim>\<open>dict\<close> are the constructors
  below. A \<^verbatim>\<open>dict\<close> is an association list read with \<^const>\<open>map_of\<close>; it keeps the insertion
  order Python keeps. Non-integer JSON numbers are left out: no handler computes with them.
\<close>

datatype json =
    JNull
  | JBool bool
  | JInt int
  | JStr string
  | JList "json list"
  | JObj "(string \<times> json) list"

datatype py_error = TypeError | KeyError | AttributeError

type_synonym response = "json \<times> nat"

text \<open>\<^verbatim>\<open>not data\<close> is the negation of Python's truth value of \<^verbatim>\<open>data\<close>.\<close>

fun truthy :: "json \<Rightarrow> bool" where
  "truthy JNull = False"
| "truthy (JBool b) = b"
| "truthy (JInt i) = (i \<noteq> 0)"
| "truthy (JStr s) = (s \<noteq> [])"
| "truthy (JList xs) = (xs \<noteq> [])"
| "truthy (JObj kvs) = (kvs \<noteq> [])"

text \<open>
  \<^verbatim>\<open>k in data\<close> for a string \<^verbatim>\<open>k\<close>: key membership on a dict, element membership on a list,
  substring test on a string, and \<^verbatim>\<open>TypeError\<close> on \<^verbatim>\<open>None\<close>, booleans and integers.
\<close>

fun py_in :: "string \<Rightarrow> json \<Rightarrow> py_error + bool" where
  "py_in k (JObj kvs) = Inr (map_of kvs k \<noteq> None)"
| "py_in k (JList xs) = Inr (JStr k \<in> set xs)"
| "py_in k (JStr s) = Inr (sublist k s)"
| "py_in k _ = Inl TypeError"

text \<open>\<^verbatim>\<open>data[k]\<close> for a string \<^verbatim>\<open>k\<close>: only a dict can be indexed by a string.\<close>

fun py_getitem :: "json \<Rightarrow> string \<Rightarrow> py_error + json" where
  "py_getitem (JObj kvs) k = (case map_of kvs k of None \<Rightarrow> Inl KeyError | Some v \<Rightarrow> Inr v)"
| "py_getitem _ k = Inl TypeError"

text \<open>\<^verbatim>\<open>data.get(k)\<close>: the value, or \<^verbatim>\<open>None\<close> when the key is absent; only a dict has \<^verbatim>\<open>get\<close>.\<close>

fun py_get :: "json \<Rightarrow> string \<Rightarrow> py_error + json" where
  "py_get (JObj kvs) k = Inr (case map_of kvs k of None \<Rightarrow> JNull | Some v \<Rightarrow> v)"
| "py_get _ k = Inl AttributeError"

subsection \<open>Formatting a value inside an f-string\<close>

fun str_nat :: "nat \<Rightarrow> string" where
  "str_nat n =
     (if n < 10 then [char_of (48 + n)]
      else str_nat (n div 10) @ [char_of (48 + n mod 10)])"

declare str_nat.simps [simp del]

fun join :: "string \<Rightarrow> string list \<Rightarrow> string" where
  "join sep [] = []"
| "join sep [x] = x"
| "join sep (x # y # ys) = x @ sep @ join sep (y # ys)"

text \<open>
  Python's \<^verbatim>\<open>repr\<close> of a value. The quoting and escaping of a \<^verbatim>\<open>str\<close> is the interpreter's own
  and is taken as the parameter \<open>q\<close>; the rest is written out.
\<close>

fun py_repr :: "(string \<Rightarrow> string) \<Rightarrow> json \<Rightarrow> string" where
  "py_repr q JNull = ''None''"
| "py_repr q (JBool b) = (if b then ''True'' else ''False'')"
| "py_repr q (JInt i) = (if i < 0 then ''-'' @ str_nat (nat (- i)) else str_nat (nat i))"
| "py_repr q (JStr s) = q s"
| "py_repr q (JList xs) = ''['' @ join '', '' (map (py_repr q) xs) @ '']''"
| "py_repr q (JObj kvs) =
     ''{'' @ join '', '' (map (\<lambda>(k, v). q k @ '': '' @ py_repr q v) kvs) @ ''}''"

text \<open>\<^verbatim>\<open>{value}\<close> in an f-string is \<^verbatim>\<open>str(value)\<close>: a string stands for itself.\<close>

definition py_str :: "(string \<Rightarrow> string) \<Rightarrow> json \<Rightarrow> string" where
  "py_str q v = (case v of JStr s \<Rightarrow> s | _ \<Rightarrow> py_repr q v)"

text \<open>
  \<^verbatim>\<open>repr\<close> of a string of printable ASCII characters with no quote and no backslash in it:
  the string between single quotes.
\<close>

definition repr_plain :: "string \<Rightarrow> string" where
  "repr_plain s = CHR 0x27 # s @ [CHR 0x27]"

section \<open>The Flask variant\<close>

subsection \<open>models/user.py\<close>

text \<open>
  The dataclass \<^verbatim>\<open>User\<close>. Its annotations (\<^verbatim>\<open>str\<close>, \<^verbatim>\<open>str\<close>, \<^verbatim>\<open>Optional[int]\<close>) are not checked
  when an instance is built, so each field holds whatever JSON value it was given; the
  default of \<^verbatim>\<open>age\<close> is \<^verbatim>\<open>None\<close>.
\<close>

record user =
  name :: json
  email :: json
  age :: json

definition to_dict :: "user \<Rightarrow> (string \<times> json) list" where
  "to_dict self = [(''name'', name self), (''email'', email self), (''age'', age self)]"

text \<open>
  A call \<^verbatim>\<open>user.to_dict()\<close> as the interpreter runs it. The instance is its attribute
  dictionary. Reading an attribute looks there first and then on the class, where the
  dataclass leaves the default \<^verbatim>\<open>None\<close> of \<^verbatim>\<open>age\<close>; a name found in neither raises
  \<^verbatim>\<open>AttributeError\<close>. The call gives back the new dictionary together with the instance as
  the call left it. \<open>instance_of\<close> is the instance the generated \<^verbatim>\<open>__init__\<close> builds from the
  three fields.
\<close>

type_synonym instance_dict = "(string \<times> json) list"

definition User_class_attrs :: "(string \<times> json) list" where
  "User_class_attrs = [(''age'', JNull)]"

definition py_getattr :: "instance_dict \<Rightarrow> string \<Rightarrow> py_error + json" where
  "py_getattr self k =
     (case map_of self k of
        Some v \<Rightarrow> Inr v
      | None \<Rightarrow>
          (case map_of User_class_attrs k of
             Some v \<Rightarrow> Inr v
           | None \<Rightarrow> Inl AttributeError))"

definition instance_of :: "user \<Rightarrow> instance_dict" where
  "instance_of u = [(''name'', name u), (''email'', email u), (''age'', age u)]"

definition to_dict_call :: "instance_dict \<Rightarrow> py_error + (string \<times> json) list \<times> instance_dict" where
  "to_dict_call self =
     (case py_getattr self ''name'' of
        Inl err \<Rightarrow> Inl err
      | Inr n \<Rightarrow>
          (case py_getattr self ''email'' of
             Inl err \<Rightarrow> Inl err
           | Inr m \<Rightarrow>
               (case py_getattr self ''age'' of
                  Inl err \<Rightarrow> Inl err
                | Inr a \<Rightarrow> Inr ([(''name'', n), (''email'', m), (''age'', a)], self))))"

subsection \<open>api/routes.py\<close>

definition root :: response where
  "root = (JObj [(''message'', JStr ''Hello, world!'')], 200)"

text \<open>
  \<^verbatim>\<open>create_user\<close>, from the parsed body \<open>data\<close> on. A \<^verbatim>\<open>return\<close> of the handler is an \<open>Inr\<close>
  with the JSON body and the status; an exception raised on the way is an \<open>Inl\<close>.
\<close>

definition bad_request :: response where
  "bad_request = (JObj [(''error'', JStr ''Name and email are required'')], 400)"

definition create_user :: "(string \<Rightarrow> string) \<Rightarrow> json \<Rightarrow> py_error + response" where
  "create_user q data =
     (if \<not> truthy data then Inr bad_request
      else
       (case py_in ''name'' data of
          Inl e \<Rightarrow> Inl e
        | Inr has_name \<Rightarrow>
           (if \<not> has_name then Inr bad_request
            else
             (case py_in ''email'' data of
                Inl e \<Rightarrow> Inl e
              | Inr has_email \<Rightarrow>
                 (if \<not> has_email then Inr bad_request
                  else
                   (case py_getitem data ''name'' of
                      Inl e \<Rightarrow> Inl e
                    | Inr n \<Rightarrow>
                       (case py_getitem data ''email'' of
                          Inl e \<Rightarrow> Inl e
                        | Inr m \<Rightarrow>
                           (case py_get data ''age'' of
                              Inl e \<Rightarrow> Inl e
                            | Inr a \<Rightarrow>
                               (let user = \<lparr>name = n, email = m, age = a\<rparr> in
                                Inr (JObj [(''message'',
                                            JStr (''User '' @ py_str q (name user)
                                                  @ '' created!'')),
                                           (''user'', JObj (to_dict user))],
                                     201))))))))))"

definition health_check :: response where
  "health_check = (JObj [(''status'', JStr ''healthy'')], 200)"

section \<open>The Django variant\<close>

subsection \<open>api/models.py\<close>

text \<open>
  A model field is declared by its options. The defaults are Django's: nothing is unique,
  nullable, blank or automatically stamped unless the declaration says so.
\<close>

record field_options =
  max_length :: "nat option"
  unique :: bool
  null :: bool
  blank :: bool
  auto_now_add :: bool
  auto_now :: bool

definition default_options :: field_options where
  "default_options =
     \<lparr>max_length = None, unique = False, null = False, blank = False,
      auto_now_add = False, auto_now = False\<rparr>"

definition name_field :: field_options where
  "name_field = default_options\<lparr>max_length := Some 100\<rparr>"

definition email_field :: field_options where
  "email_field = default_options\<lparr>unique := True\<rparr>"

definition age_field :: field_options where
  "age_field = default_options\<lparr>null := True, blank := True\<rparr>"

definition created_at_field :: field_options where
  "created_at_field = default_options\<lparr>auto_now_add := True\<rparr>"

definition updated_at_field :: field_options where
  "updated_at_field = default_options\<lparr>auto_now := True\<rparr>"

text \<open>\<^verbatim>\<open>Meta.ordering\<close>: a leading minus sign asks for descending order.\<close>

definition ordering :: "string list" where
  "ordering = [''-created_at'']"

text \<open>
  A stored row of the model. The selectors of the three declared columns carry the prefix
  \<open>row_\<close> (\<open>name\<close>, \<open>email\<close> and \<open>age\<close> are the selectors of the Flask record), and the
  implicit primary key \<^verbatim>\<open>id\<close> is \<open>pk\<close>. Timestamps are ticks of the server's clock.
\<close>

record user_row =
  pk :: nat
  row_name :: string
  row_email :: string
  row_age :: "int option"
  created_at :: nat
  updated_at :: nat

subsection \<open>api/views.py\<close>

definition HTTP_200_OK :: nat where
  "HTTP_200_OK = 200"

datatype http_method = GET | HEAD | POST | PUT | PATCH | DELETE | OPTIONS

text \<open>
  What a view sees of a request here is its method (\<^verbatim>\<open>request.method\<close>); what else it carries is
  the extension of the record.
\<close>

record request =
  request_method :: http_method

text \<open>
  A decorated view answers with what its function returned, or the framework answers in its
  place: 405 Method Not Allowed, or the description of the view that an \<^verbatim>\<open>OPTIONS\<close> request
  gets.
\<close>

datatype dispatched = Returned response | MethodNotAllowed | OptionsMetadata

text \<open>
  Modelled from the spec: the HTTP host framework, which "routes \<^verbatim>\<open>GET /\<close>, \<^verbatim>\<open>GET /health\<close>" to
  the operations. \<^verbatim>\<open>@api_view(http_method_names)\<close> passes a request on to the function when
  its method is one of the listed ones; a request with any other method does not reach the
  function.
\<close>

definition api_view ::
  "http_method list \<Rightarrow> ('a request_scheme \<Rightarrow> response) \<Rightarrow> 'a request_scheme \<Rightarrow> dispatched" where
  "api_view http_method_names func request =
     (if request_method request \<in> set http_method_names then Returned (func request)
      else if request_method request = OPTIONS then OptionsMetadata
      else MethodNotAllowed)"

text \<open>
  Each view is the function as written (\<open>_func\<close>) under its decorator \<^verbatim>\<open>@api_view(['GET'])\<close>.
\<close>

definition django_root_func :: "'a request_scheme \<Rightarrow> response" where
  "django_root_func request = (JObj [(''message'', JStr ''Hello, world!'')], HTTP_200_OK)"

definition django_root :: "'a request_scheme \<Rightarrow> dispatched" where
  "django_root = api_view [GET] django_root_func"

definition django_health_check_func :: "'a request_scheme \<Rightarrow> response" where
  "django_health_check_func request = (JObj [(''status'', JStr ''healthy'')], HTTP_200_OK)"

definition django_health_check :: "'a request_scheme \<Rightarrow> dispatched" where
  "django_health_check = api_view [GET] django_health_check_func"

subsection \<open>The persistence collaborator\<close>

text \<open>
  \<^verbatim>\<open>UserViewSet\<close> hands every request to \<^verbatim>\<open>UserSerializer\<close> (api/serializers.py) and to the
  framework's object-relational mapper; neither is among the sources. The table and its
  operations below follow the specification's contract for that collaborator and read the
  declarations of api/models.py above.
\<close>

datatype db_error = UniquenessError | NotFoundError

text \<open>
  Modelled from the spec: the storage of the persistence collaborator, which the missing
  api/serializers.py and the mapper stand in front of. It holds the stored records in the
  order of their creation and the next \<^verbatim>\<open>id\<close> to assign ("\<^verbatim>\<open>id\<close>: integer, server-assigned,
  unique"). Nothing is stored at the start.
\<close>

record table =
  rows :: "user_row list"
  next_pk :: nat

definition empty_table :: table where
  "empty_table = \<lparr>rows = [], next_pk = 1\<rparr>"

text \<open>
  Modelled from the spec: \<^verbatim>\<open>save(User) \<rightarrow> User | UniquenessError\<close> of the persistence
  collaborator (the mapper behind \<^verbatim>\<open>UserViewSet\<close> and the missing api/serializers.py).
  "\<^verbatim>\<open>email\<close>: must be unique within the persisted variant", as \<open>email_field\<close> declares;
  \<^verbatim>\<open>id\<close> is server-assigned and unique; \<^verbatim>\<open>created_at\<close> and \<^verbatim>\<open>updated_at\<close> are server-assigned
  and set at creation. \<open>now\<close> is the server's clock at the call.
\<close>

definition save :: "nat \<Rightarrow> string \<times> string \<times> int option \<Rightarrow> table \<Rightarrow> db_error + user_row \<times> table" where
  "save now input t =
     (case input of (n, e, a) \<Rightarrow>
        if unique email_field \<and> e \<in> set (map row_email (rows t)) then Inl UniquenessError
        else
          (let r = \<lparr>pk = next_pk t, row_name = n, row_email = e, row_age = a,
                    created_at = now, updated_at = now\<rparr>
           in Inr (r, \<lparr>rows = rows t @ [r], next_pk = Suc (next_pk t)\<rparr>)))"

text \<open>
  Modelled from the spec: \<^verbatim>\<open>get(id) \<rightarrow> User | NotFoundError\<close> of the persistence
  collaborator.
\<close>

definition get :: "nat \<Rightarrow> table \<Rightarrow> db_error + user_row" where
  "get i t = (case find (\<lambda>r. pk r = i) (rows t) of None \<Rightarrow> Inl NotFoundError | Some r \<Rightarrow> Inr r)"

text \<open>
  Modelled from the spec: \<^verbatim>\<open>list() \<rightarrow> ordered sequence of User\<close> of the persistence
  collaborator, "ordered by descending creation time". The order is the one \<open>ordering\<close>
  declares: each key names a column, a leading minus sign reverses it, and the first key is
  the most significant. Keys other than the numeric columns leave the order as it is.
\<close>

definition order_by_key :: "string \<Rightarrow> user_row list \<Rightarrow> user_row list" where
  "order_by_key k rs =
     (if k = ''created_at'' then sort_key (\<lambda>r. int (created_at r)) rs
      else if k = ''-created_at'' then sort_key (\<lambda>r. - int (created_at r)) rs
      else if k = ''updated_at'' then sort_key (\<lambda>r. int (updated_at r)) rs
      else if k = ''-updated_at'' then sort_key (\<lambda>r. - int (updated_at r)) rs
      else if k = ''id'' then sort_key (\<lambda>r. int (pk r)) rs
      else if k = ''-id'' then sort_key (\<lambda>r. - int (pk r)) rs
      else rs)"

text \<open>
  Modelled from the spec: \<^verbatim>\<open>list()\<close> of the persistence collaborator applies the declared
  keys to the stored rows, the last key first, each by a stable sort.
\<close>

definition list_users :: "table \<Rightarrow> user_row list" where
  "list_users t = foldr order_by_key ordering (rows t)"

text \<open>
  Modelled from the spec: "\<^verbatim>\<open>id\<close>: unique, immutable after creation". Every stored primary
  key was handed out before: it is below the next one. The empty table satisfies this and
  \<open>save\<close> keeps it.
\<close>

definition table_inv :: "table \<Rightarrow> bool" where
  "table_inv t = list_all (\<lambda>r. pk r < next_pk t) (rows t)"

text \<open>
  Modelled from the spec: a run of creation calls on the persistence collaborator, each
  with the server's clock at the call and its input. A call that fails with
  \<open>UniquenessError\<close> stores nothing, and the run goes on from the table as it was.
\<close>

fun save_all :: "(nat \<times> string \<times> string \<times> int option) list \<Rightarrow> table \<Rightarrow> table" where
  "save_all [] t = t"
| "save_all ((now, input) # calls) t =
     (case save now input t of
        Inl err \<Rightarrow> save_all calls t
      | Inr (r, t') \<Rightarrow> save_all calls t')"

section \<open>Facts about the Flask handler\<close>

lemma create_user_obj:
  "create_user q (JObj d) =
     (case map_of d ''name'' of
        None \<Rightarrow> Inr bad_request
      | Some n \<Rightarrow>
          (case map_of d ''email'' of
             None \<Rightarrow> Inr bad_request
           | Some m \<Rightarrow>
               Inr (JObj [(''message'', JStr (''User '' @ py_str q n @ '' created!'')),
                          (''user'', JObj (to_dict \<lparr>name = n, email = m,
                              age = (case map_of d ''age'' of None \<Rightarrow> JNull | Some a \<Rightarrow> a)\<rparr>))],
                    201)))"
proof (cases "d = []")
  case True
  then show ?thesis by (simp add: create_user_def)
next
  case False
  then show ?thesis
    by (simp add: create_user_def split: option.splits)
qed

lemma create_user_same:
  assumes "map_of d1 ''name'' = map_of d2 ''name''"
    and "map_of d1 ''email'' = map_of d2 ''email''"
    and "map_of d1 ''age'' = map_of d2 ''age''"
  shows "create_user q (JObj d1) = create_user q (JObj d2)"
  by (simp only: create_user_obj assms)

lemma create_user_success_user:
  assumes "create_user q (JObj d) = Inr (JObj b, 201)"
  shows "\<exists>u. map_of b ''user'' = Some (JObj (to_dict u))"
  using assms
  by (auto simp: create_user_obj bad_request_def split: option.splits)

lemma create_user_succeeds:
  assumes "map_of d ''name'' \<noteq> None" and "map_of d ''email'' \<noteq> None"
  shows "\<exists>b. create_user q (JObj d) = Inr (b, 201)"
  using assms by (auto simp: create_user_obj)

section \<open>Facts about the table\<close>

lemma save_success:
  assumes "save now (n, e, a) t = Inr (r, t')"
  shows "r = \<lparr>pk = next_pk t, row_name = n, row_email = e, row_age = a,
               created_at = now, updated_at = now\<rparr>"
    and "t' = \<lparr>rows = rows t @ [r], next_pk = Suc (next_pk t)\<rparr>"
  using assms by (auto simp: save_def Let_def split: if_splits)

lemma table_inv_empty: "table_inv empty_table"
  by (simp add: table_inv_def empty_table_def)

lemma table_inv_save:
  assumes "table_inv t" and "save now inp t = Inr (r, t')"
  shows "table_inv t'"
proof -
  obtain n e a where inp: "inp = (n, e, a)" by (cases inp) auto
  from assms(2) have r: "pk r = next_pk t"
    and t': "t' = \<lparr>rows = rows t @ [r], next_pk = Suc (next_pk t)\<rparr>"
    using save_success [of now n e a t r t'] unfolding inp by simp_all
  from assms(1) have "list_all (\<lambda>x. pk x < Suc (next_pk t)) (rows t)"
    by (auto simp: table_inv_def list_all_iff)
  then show ?thesis by (simp add: table_inv_def t' r)
qed

lemma sorted_wrt_desc_sort_key:
  "sorted_wrt (\<lambda>a b. f b \<le> f a) (sort_key (\<lambda>r. - int (f r)) rs)"
proof -
  have "sorted (map (\<lambda>r. - int (f r)) (sort_key (\<lambda>r. - int (f r)) rs))"
    by (rule sorted_sort_key)
  then show ?thesis
    by (simp add: sorted_map sorted_wrt_iff_nth_less)
qed

lemma find_append_first:
  assumes "list_all (\<lambda>x. \<not> P x) xs" and "P r"
  shows "find P (xs @ r # ys) = Some r"
  using assms by (induction xs) auto

lemma save_rejects_stored:
  assumes "e \<in> set (map row_email (rows t))"
  shows "save now (n, e, a) t = Inl UniquenessError"
  using assms by (simp add: save_def email_field_def default_options_def)

lemma save_failure:
  assumes "save now (n, e, a) t = Inl err"
  shows "e \<in> set (map row_email (rows t))"
  using assms by (auto simp: save_def Let_def split: if_splits)

lemma save_all_rows: "\<exists>ys. rows (save_all calls t) = rows t @ ys"
proof (induction calls arbitrary: t)
  case Nil
  show ?case by simp
next
  case (Cons c calls)
  obtain now n e a where c: "c = (now, n, e, a)" by (cases c) auto
  show ?case
  proof (cases "save now (n, e, a) t")
    case (Inl err)
    then have "save_all (c # calls) t = save_all calls t" by (simp add: c)
    with Cons.IH [of t] show ?thesis by simp
  next
    case (Inr p)
    obtain r t' where p: "p = (r, t')" by (cases p) auto
    from Inr p have run: "save now (n, e, a) t = Inr (r, t')" by simp
    then have step: "save_all (c # calls) t = save_all calls t'" by (simp add: c)
    from save_success(2) [OF run] have "rows t' = rows t @ [r]" by simp
    moreover from Cons.IH [of t'] obtain ys where "rows (save_all calls t') = rows t' @ ys" ..
    ultimately have "rows (save_all (c # calls) t) = rows t @ (r # ys)"
      by (simp add: step)
    then show ?thesis ..
  qed
qed

lemma email_stored_after_call:
  "e \<in> set (map row_email (rows (save_all ((now, n, e, a) # calls) t)))"
proof (cases "save now (n, e, a) t")
  case (Inl err)
  then have step: "save_all ((now, n, e, a) # calls) t = save_all calls t" by simp
  from save_failure [OF Inl] have "e \<in> set (map row_email (rows t))" .
  moreover obtain ys where "rows (save_all calls t) = rows t @ ys"
    using save_all_rows [of calls t] ..
  ultimately have "e \<in> set (map row_email (rows (save_all calls t)))" by simp
  then show ?thesis by (simp only: step)
next
  case (Inr p)
  obtain r t' where p: "p = (r, t')" by (cases p) auto
  from Inr p have run: "save now (n, e, a) t = Inr (r, t')" by simp
  then have step: "save_all ((now, n, e, a) # calls) t = save_all calls t'" by simp
  from save_success [OF run] have "row_email r = e" and "rows t' = rows t @ [r]"
    by simp_all
  moreover obtain ys where "rows (save_all calls t') = rows t' @ ys"
    using save_all_rows [of calls t'] ..
  ultimately have "e \<in> set (map row_email (rows (save_all calls t')))" by simp
  then show ?thesis by (simp only: step)
qed

lemma first_row_kept:
  assumes "table_inv t" and "save now (n, e, a) t = Inr (r, t')"
  shows "get (pk r) (save_all calls t') = Inr r"
proof -
  note s = save_success [OF assms(2)]
  obtain ys where ys: "rows (save_all calls t') = rows t' @ ys"
    using save_all_rows [of calls t'] ..
  from assms(1) have "list_all (\<lambda>x. \<not> pk x = pk r) (rows t)"
    by (auto simp: table_inv_def list_all_iff s(1))
  then have "find (\<lambda>x. pk x = pk r) (rows t @ r # ys) = Some r"
    by (rule find_append_first) simp
  moreover from s(2) have "rows t' = rows t @ [r]" by simp
  then have "rows (save_all calls t') = rows t @ r # ys"
    by (simp add: ys)
  ultimately show ?thesis by (simp add: get_def)
qed

lemma table_inv_save_all:
  assumes "table_inv t"
  shows "table_inv (save_all calls t)"
  using assms
proof (induction calls arbitrary: t)
  case Nil
  then show ?case by simp
next
  case (Cons c calls)
  obtain now inp where c: "c = (now, inp)" by (cases c) auto
  show ?case
  proof (cases "save now inp t")
    case (Inl err)
    with Cons show ?thesis by (simp add: c)
  next
    case (Inr p)
    obtain r t' where p: "p = (r, t')" by (cases p) auto
    from Inr p have run: "save now inp t = Inr (r, t')" by simp
    from table_inv_save [OF Cons.prems run] have "table_inv t'" .
    then have "table_inv (save_all calls t')" by (rule Cons.IH)
    with run show ?thesis by (simp add: c)
  qed
qed

section \<open>Creation: validation, copying, the absent age\<close>

text \<open>
  C1. Whenever the body is a mapping that lacks \<^verbatim>\<open>name\<close> or lacks \<^verbatim>\<open>email\<close>, \<^verbatim>\<open>create_user\<close>
  returns the validation failure: status 400 with the message "Name and email are required",
  and the body of that response has no \<^verbatim>\<open>user\<close> entry, so no record is produced.
\<close>

theorem create_user_missing_field:
  assumes "map_of d ''name'' = None \<or> map_of d ''email'' = None"
  shows "create_user q (JObj d) = Inr bad_request
         \<and> bad_request = (JObj [(''error'', JStr ''Name and email are required'')], 400)
         \<and> py_in ''user'' (fst bad_request) = Inr False"
  using assms by (auto simp: create_user_obj bad_request_def split: option.splits)

theorem create_user_missing_field_witness:
  "map_of [(''email'', JStr ''ada@example.com'')] ''name'' = None
   \<and> create_user repr_plain (JObj [(''email'', JStr ''ada@example.com'')]) =
       Inr (JObj [(''error'', JStr ''Name and email are required'')], 400)"
  using create_user_missing_field [of "[(''email'', JStr ''ada@example.com'')]" repr_plain]
  by simp

text \<open>
  C2. Whenever the body is a mapping that has both \<^verbatim>\<open>name\<close> and \<^verbatim>\<open>email\<close>, \<^verbatim>\<open>create_user\<close>
  succeeds (status 201) with the serialization of a record \<open>u\<close> whose \<^verbatim>\<open>name\<close> and \<^verbatim>\<open>email\<close>
  entries are the input's, and whose \<^verbatim>\<open>age\<close> is the input's \<^verbatim>\<open>age\<close> when the input has one.
\<close>

theorem create_user_copies_fields:
  assumes "map_of d ''name'' = Some n" and "map_of d ''email'' = Some m"
  shows "\<exists>u. create_user q (JObj d) =
               Inr (JObj [(''message'', JStr (''User '' @ py_str q n @ '' created!'')),
                          (''user'', JObj (to_dict u))], 201)
             \<and> map_of (to_dict u) ''name'' = Some n
             \<and> map_of (to_dict u) ''email'' = Some m
             \<and> (\<forall>a. map_of d ''age'' = Some a \<longrightarrow>
                   age u = a \<and> map_of (to_dict u) ''age'' = Some a)"
proof -
  let ?u = "\<lparr>name = n, email = m,
             age = (case map_of d ''age'' of None \<Rightarrow> JNull | Some a \<Rightarrow> a)\<rparr>"
  have "create_user q (JObj d) =
          Inr (JObj [(''message'', JStr (''User '' @ py_str q n @ '' created!'')),
                     (''user'', JObj (to_dict ?u))], 201)"
    using assms by (simp add: create_user_obj)
  moreover have "map_of (to_dict ?u) ''name'' = Some n"
    and "map_of (to_dict ?u) ''email'' = Some m"
    and "\<forall>a. map_of d ''age'' = Some a \<longrightarrow>
           age ?u = a \<and> map_of (to_dict ?u) ''age'' = Some a"
    by (simp_all add: to_dict_def)
  ultimately show ?thesis by blast
qed

theorem create_user_copies_fields_witness:
  "\<exists>u. create_user repr_plain
          (JObj [(''name'', JStr ''Ada''), (''email'', JStr ''ada@example.com''),
                 (''age'', JInt 36)]) =
          Inr (JObj [(''message'', JStr ''User Ada created!''), (''user'', JObj (to_dict u))], 201)
        \<and> map_of (to_dict u) ''name'' = Some (JStr ''Ada'')
        \<and> map_of (to_dict u) ''email'' = Some (JStr ''ada@example.com'')
        \<and> age u = JInt 36 \<and> map_of (to_dict u) ''age'' = Some (JInt 36)"
  using create_user_copies_fields
    [of "[(''name'', JStr ''Ada''), (''email'', JStr ''ada@example.com''), (''age'', JInt 36)]"
        "JStr ''Ada''" "JStr ''ada@example.com''" repr_plain]
  by (simp add: py_str_def)

text \<open>
  C3. Whenever \<^verbatim>\<open>create_user\<close> succeeds on a mapping that has no \<^verbatim>\<open>age\<close>, the record it
  serializes has \<^verbatim>\<open>None\<close> as its age, and the serialized \<^verbatim>\<open>age\<close> entry is \<^verbatim>\<open>null\<close>, not the
  integer 0.
\<close>

theorem create_user_age_absent:
  assumes "create_user q (JObj d) = Inr (JObj b, 201)" and "map_of d ''age'' = None"
  shows "\<exists>u. map_of b ''user'' = Some (JObj (to_dict u))
             \<and> age u = JNull
             \<and> map_of (to_dict u) ''age'' = Some JNull
             \<and> map_of (to_dict u) ''age'' \<noteq> Some (JInt 0)"
proof -
  from assms obtain n m where
    b: "b = [(''message'', JStr (''User '' @ py_str q n @ '' created!'')),
             (''user'', JObj (to_dict \<lparr>name = n, email = m, age = JNull\<rparr>))]"
    by (auto simp: create_user_obj bad_request_def split: option.splits)
  let ?u = "\<lparr>name = n, email = m, age = JNull\<rparr>"
  have "map_of b ''user'' = Some (JObj (to_dict ?u))"
    by (simp add: b)
  moreover have "age ?u = JNull" by simp
  moreover have "map_of (to_dict ?u) ''age'' = Some JNull"
    by (simp add: to_dict_def)
  ultimately show ?thesis by fastforce
qed

theorem create_user_age_absent_witness:
  "\<exists>u. map_of [(''message'', JStr ''User Ada created!''),
                 (''user'', JObj [(''name'', JStr ''Ada''), (''email'', JStr ''ada@example.com''),
                                  (''age'', JNull)])] ''user'' = Some (JObj (to_dict u))
        \<and> age u = JNull
        \<and> map_of (to_dict u) ''age'' = Some JNull
        \<and> map_of (to_dict u) ''age'' \<noteq> Some (JInt 0)"
proof -
  have run: "create_user repr_plain
               (JObj [(''name'', JStr ''Ada''), (''email'', JStr ''ada@example.com'')]) =
             Inr (JObj [(''message'', JStr ''User Ada created!''),
                        (''user'', JObj [(''name'', JStr ''Ada''),
                                         (''email'', JStr ''ada@example.com''),
                                         (''age'', JNull)])], 201)"
    by (simp add: create_user_def py_str_def to_dict_def)
  have absent:
    "map_of [(''name'', JStr ''Ada''), (''email'', JStr ''ada@example.com'')] ''age'' = None"
    by simp
  show ?thesis
    by (rule create_user_age_absent [OF run absent])
qed

section \<open>The response of a successful creation\<close>

text \<open>
  C4, as the claim words it: the JSON body of a successful creation is the serialized
  record. For the scenario input the handler answers 201, but its body is an object with the
  two entries \<^verbatim>\<open>message\<close> and \<^verbatim>\<open>user\<close>; it is not the serialization of the record.
\<close>

theorem create_user_body_counterexample:
  "create_user repr_plain (JObj [(''name'', JStr ''Ada''), (''email'', JStr ''ada@example.com'')]) =
     Inr (JObj [(''message'', JStr ''User Ada created!''),
                (''user'', JObj [(''name'', JStr ''Ada''), (''email'', JStr ''ada@example.com''),
                                 (''age'', JNull)])], 201)
   \<and> to_dict \<lparr>name = JStr ''Ada'', email = JStr ''ada@example.com'', age = JNull\<rparr> =
       [(''name'', JStr ''Ada''), (''email'', JStr ''ada@example.com''), (''age'', JNull)]
   \<and> JObj [(''message'', JStr ''User Ada created!''),
            (''user'', JObj [(''name'', JStr ''Ada''), (''email'', JStr ''ada@example.com''),
                             (''age'', JNull)])] \<noteq>
       JObj (to_dict \<lparr>name = JStr ''Ada'', email = JStr ''ada@example.com'', age = JNull\<rparr>)"
  by (simp add: create_user_def py_str_def to_dict_def)

text \<open>
  C4, amended. Whenever the body is a mapping that has both \<^verbatim>\<open>name\<close> and \<^verbatim>\<open>email\<close>, the
  handler answers with status 201 and a JSON object of exactly two entries: \<^verbatim>\<open>message\<close>, the
  text "User <name> created!", and \<^verbatim>\<open>user\<close>, the serialized record. For the scenario input
  the \<^verbatim>\<open>user\<close> entry is \<^verbatim>\<open>{"name": "Ada", "email": "ada@example.com", "age": null}\<close>.
\<close>

theorem create_user_success_response:
  assumes "map_of d ''name'' = Some n" and "map_of d ''email'' = Some m"
  shows "\<exists>b. create_user q (JObj d) = Inr (JObj b, 201)
             \<and> map fst b = [''message'', ''user'']
             \<and> map_of b ''message'' = Some (JStr (''User '' @ py_str q n @ '' created!''))
             \<and> map_of b ''user'' =
                 Some (JObj (to_dict \<lparr>name = n, email = m,
                   age = (case map_of d ''age'' of None \<Rightarrow> JNull | Some a \<Rightarrow> a)\<rparr>))"
  using assms by (simp add: create_user_obj)

theorem create_user_success_response_witness:
  "\<exists>b. create_user repr_plain
          (JObj [(''name'', JStr ''Ada''), (''email'', JStr ''ada@example.com'')]) =
          Inr (JObj b, 201)
        \<and> map_of b ''message'' = Some (JStr ''User Ada created!'')
        \<and> map_of b ''user'' =
            Some (JObj [(''name'', JStr ''Ada''), (''email'', JStr ''ada@example.com''),
                        (''age'', JNull)])"
  using create_user_success_response
    [of "[(''name'', JStr ''Ada''), (''email'', JStr ''ada@example.com'')]"
        "JStr ''Ada''" "JStr ''ada@example.com''" repr_plain]
  by (simp add: to_dict_def py_str_def) blast

section \<open>The liveness probe\<close>

lemma django_health_check_other_methods:
  assumes "request_method request \<noteq> GET"
  shows "django_health_check request =
           (if request_method request = OPTIONS then OptionsMetadata else MethodNotAllowed)"
  using assms by (simp add: django_health_check_def api_view_def)

text \<open>
  C5. The health operation reads nothing and cannot raise: in both variants the function
  returns status 200 and the object whose only entry is \<^verbatim>\<open>status\<close> with the value "healthy".
  The Flask function takes no argument; the Django function returns the same for every
  request it is given. The Django view, which is that function under \<^verbatim>\<open>@api_view(['GET'])\<close>,
  answers every \<^verbatim>\<open>GET\<close> request with it, so any two \<^verbatim>\<open>GET\<close> requests get the same answer.
\<close>

theorem health_check_fixed:
  "health_check = (JObj [(''status'', JStr ''healthy'')], 200)
   \<and> py_getitem (fst health_check) ''status'' = Inr (JStr ''healthy'')
   \<and> django_health_check_func request = (JObj [(''status'', JStr ''healthy'')], 200)
   \<and> (request_method request = GET \<longrightarrow>
         django_health_check request = Returned (JObj [(''status'', JStr ''healthy'')], 200))
   \<and> (request_method request = GET \<and> request_method request' = GET \<longrightarrow>
         django_health_check request = django_health_check request')"
  by (simp add: health_check_def django_health_check_def django_health_check_func_def
      api_view_def HTTP_200_OK_def)

theorem health_check_fixed_witness:
  "request_method \<lparr>request_method = GET, \<dots> = (1::nat)\<rparr> = GET
   \<and> django_health_check \<lparr>request_method = GET, \<dots> = (1::nat)\<rparr> =
       Returned (JObj [(''status'', JStr ''healthy'')], 200)
   \<and> django_health_check \<lparr>request_method = GET, \<dots> = (1::nat)\<rparr> =
       django_health_check \<lparr>request_method = GET, \<dots> = (2::nat)\<rparr>"
proof -
  note h = health_check_fixed
    [of "\<lparr>request_method = GET, \<dots> = (1::nat)\<rparr>" "\<lparr>request_method = GET, \<dots> = (2::nat)\<rparr>"]
  have get1: "request_method \<lparr>request_method = GET, \<dots> = (1::nat)\<rparr> = GET"
    by simp
  have get12: "request_method \<lparr>request_method = GET, \<dots> = (1::nat)\<rparr> = GET
      \<and> request_method \<lparr>request_method = GET, \<dots> = (2::nat)\<rparr> = GET"
    by simp
  from h [THEN conjunct2, THEN conjunct2, THEN conjunct2, THEN conjunct1] get1
  have answered: "django_health_check \<lparr>request_method = GET, \<dots> = (1::nat)\<rparr> =
      Returned (JObj [(''status'', JStr ''healthy'')], 200)"
    by (rule mp)
  from h [THEN conjunct2, THEN conjunct2, THEN conjunct2, THEN conjunct2] get12
  have same: "django_health_check \<lparr>request_method = GET, \<dots> = (1::nat)\<rparr> =
      django_health_check \<lparr>request_method = GET, \<dots> = (2::nat)\<rparr>"
    by (rule mp)
  from get1 answered same show ?thesis
    by (intro conjI)
qed

section \<open>What a created record holds\<close>

text \<open>
  C6, as the claim words it: the name of every created record is a string of length at
  least one. The handler tests that the key \<^verbatim>\<open>name\<close> is there, not what is stored under it:
  with the empty string as name the creation succeeds, and the record's name has length 0.
\<close>

theorem create_user_empty_name_counterexample:
  "create_user repr_plain (JObj [(''name'', JStr []), (''email'', JStr ''ada@example.com'')]) =
     Inr (JObj [(''message'', JStr ''User  created!''),
                (''user'', JObj (to_dict \<lparr>name = JStr [], email = JStr ''ada@example.com'',
                                          age = JNull\<rparr>))], 201)
   \<and> name \<lparr>name = JStr [], email = JStr ''ada@example.com'', age = JNull\<rparr> = JStr []
   \<and> length ([] :: string) = 0"
  by (simp add: create_user_def py_str_def to_dict_def)

text \<open>
  C6, amended. Whenever \<^verbatim>\<open>create_user\<close> succeeds on a mapping, the mapping has both \<^verbatim>\<open>name\<close>
  and \<^verbatim>\<open>email\<close>, and the record it serializes has exactly the input's values as its name and
  email. No record is built with either of them missing; the values themselves are not
  examined.
\<close>

theorem create_user_record_has_name_email:
  assumes "create_user q (JObj d) = Inr (JObj b, 201)"
  shows "\<exists>u n m. map_of b ''user'' = Some (JObj (to_dict u))
               \<and> map_of d ''name'' = Some n \<and> name u = n
               \<and> map_of d ''email'' = Some m \<and> email u = m
               \<and> map_of (to_dict u) ''name'' = Some n
               \<and> map_of (to_dict u) ''email'' = Some m"
proof -
  from assms obtain n m where
    nm: "map_of d ''name'' = Some n" "map_of d ''email'' = Some m"
    by (auto simp: create_user_obj bad_request_def split: option.splits)
  let ?u = "\<lparr>name = n, email = m,
             age = (case map_of d ''age'' of None \<Rightarrow> JNull | Some a \<Rightarrow> a)\<rparr>"
  from assms nm have "map_of b ''user'' = Some (JObj (to_dict ?u))"
    by (auto simp: create_user_obj)
  moreover have "map_of (to_dict ?u) ''name'' = Some n" "map_of (to_dict ?u) ''email'' = Some m"
    by (simp_all add: to_dict_def)
  ultimately show ?thesis using nm by fastforce
qed

theorem create_user_record_has_name_email_witness:
  "\<exists>u n m. map_of [(''message'', JStr ''User  created!''),
                     (''user'', JObj [(''name'', JStr []), (''email'', JStr ''ada@example.com''),
                                      (''age'', JNull)])] ''user'' = Some (JObj (to_dict u))
        \<and> map_of [(''name'', JStr []), (''email'', JStr ''ada@example.com'')] ''name'' = Some n
        \<and> name u = n
        \<and> map_of [(''name'', JStr []), (''email'', JStr ''ada@example.com'')] ''email'' = Some m
        \<and> email u = m
        \<and> map_of (to_dict u) ''name'' = Some n
        \<and> map_of (to_dict u) ''email'' = Some m"
proof -
  have run: "create_user repr_plain
               (JObj [(''name'', JStr []), (''email'', JStr ''ada@example.com'')]) =
             Inr (JObj [(''message'', JStr ''User  created!''),
                        (''user'', JObj [(''name'', JStr []),
                                         (''email'', JStr ''ada@example.com''),
                                         (''age'', JNull)])], 201)"
    by (simp add: create_user_def py_str_def to_dict_def)
  show ?thesis
    by (rule create_user_record_has_name_email [OF run])
qed

section \<open>Uniqueness of the email address\<close>

text \<open>
  C7. In the persisted variant, take any creation call with email \<open>e\<close>, then any run of
  further creation calls, then a second creation call with the same email \<open>e\<close>, whatever its
  name, age and time: the second call fails with \<open>UniquenessError\<close>. If the first call
  succeeded, the record it stored is still retrieved, unchanged, under its primary key from
  the table the second call was made on; the failed call returns no new table, so that table
  stays. The Flask handler keeps nothing between requests: two requests with the same email
  both succeed.
\<close>

theorem save_same_email_rejected:
  assumes "table_inv t"
  shows "save now2 (n2, e, a2) (save_all ((now1, n1, e, a1) # calls) t) = Inl UniquenessError
         \<and> (\<forall>r1 t1. save now1 (n1, e, a1) t = Inr (r1, t1) \<longrightarrow>
               save now2 (n2, e, a2) (save_all calls t1) = Inl UniquenessError
               \<and> get (pk r1) (save_all calls t1) = Inr r1
               \<and> row_name r1 = n1 \<and> row_email r1 = e \<and> row_age r1 = a1)
         \<and> (map_of d1 ''name'' \<noteq> None \<and> map_of d2 ''name'' \<noteq> None
              \<and> map_of d1 ''email'' = Some m \<and> map_of d2 ''email'' = Some m
            \<longrightarrow> (\<exists>b1 b2. create_user q (JObj d1) = Inr (b1, 201)
                        \<and> create_user q (JObj d2) = Inr (b2, 201)))"
proof -
  have rejected: "save now2 (n2, e, a2) (save_all ((now1, n1, e, a1) # calls) t) =
      Inl UniquenessError"
    by (rule save_rejects_stored) (rule email_stored_after_call)
  have kept: "\<forall>r1 t1. save now1 (n1, e, a1) t = Inr (r1, t1) \<longrightarrow>
               save now2 (n2, e, a2) (save_all calls t1) = Inl UniquenessError
               \<and> get (pk r1) (save_all calls t1) = Inr r1
               \<and> row_name r1 = n1 \<and> row_email r1 = e \<and> row_age r1 = a1"
  proof (intro allI impI)
    fix r1 t1
    assume run: "save now1 (n1, e, a1) t = Inr (r1, t1)"
    then have step: "save_all ((now1, n1, e, a1) # calls) t = save_all calls t1"
      by simp
    from rejected have "save now2 (n2, e, a2) (save_all calls t1) = Inl UniquenessError"
      by (simp only: step)
    moreover have "get (pk r1) (save_all calls t1) = Inr r1"
      by (rule first_row_kept [OF assms run])
    moreover have "row_name r1 = n1 \<and> row_email r1 = e \<and> row_age r1 = a1"
      by (simp add: save_success(1) [OF run])
    ultimately show "save now2 (n2, e, a2) (save_all calls t1) = Inl UniquenessError
               \<and> get (pk r1) (save_all calls t1) = Inr r1
               \<and> row_name r1 = n1 \<and> row_email r1 = e \<and> row_age r1 = a1"
      by (intro conjI) simp_all
  qed
  have flask: "map_of d1 ''name'' \<noteq> None \<and> map_of d2 ''name'' \<noteq> None
              \<and> map_of d1 ''email'' = Some m \<and> map_of d2 ''email'' = Some m
            \<longrightarrow> (\<exists>b1 b2. create_user q (JObj d1) = Inr (b1, 201)
                        \<and> create_user q (JObj d2) = Inr (b2, 201))"
  proof (intro impI, elim conjE)
    assume h: "map_of d1 ''name'' \<noteq> None" "map_of d2 ''name'' \<noteq> None"
      "map_of d1 ''email'' = Some m" "map_of d2 ''email'' = Some m"
    from h(1,3) obtain b1 where b1: "create_user q (JObj d1) = Inr (b1, 201)"
      using create_user_succeeds [of d1 q] by auto
    from h(2,4) obtain b2 where b2: "create_user q (JObj d2) = Inr (b2, 201)"
      using create_user_succeeds [of d2 q] by auto
    from b1 b2 show "\<exists>b1 b2. create_user q (JObj d1) = Inr (b1, 201)
                        \<and> create_user q (JObj d2) = Inr (b2, 201)"
      by (intro exI conjI)
  qed
  from rejected kept flask show ?thesis by (intro conjI)
qed

theorem save_same_email_rejected_witness:
  "table_inv empty_table
   \<and> save 7 (''Ada'', ''ada@example.com'', None) empty_table =
       Inr (\<lparr>pk = 1, row_name = ''Ada'', row_email = ''ada@example.com'', row_age = None,
              created_at = 7, updated_at = 7\<rparr>,
            \<lparr>rows = [\<lparr>pk = 1, row_name = ''Ada'', row_email = ''ada@example.com'',
                       row_age = None, created_at = 7, updated_at = 7\<rparr>],
              next_pk = 2\<rparr>)
   \<and> save_all [(8, ''Grace'', ''grace@example.com'', Some 45)]
         \<lparr>rows = [\<lparr>pk = 1, row_name = ''Ada'', row_email = ''ada@example.com'',
                    row_age = None, created_at = 7, updated_at = 7\<rparr>],
           next_pk = 2\<rparr> =
       \<lparr>rows = [\<lparr>pk = 1, row_name = ''Ada'', row_email = ''ada@example.com'',
                  row_age = None, created_at = 7, updated_at = 7\<rparr>,
                \<lparr>pk = 2, row_name = ''Grace'', row_email = ''grace@example.com'',
                  row_age = Some 45, created_at = 8, updated_at = 8\<rparr>],
         next_pk = 3\<rparr>
   \<and> save 9 (''Augusta'', ''ada@example.com'', Some 36)
         \<lparr>rows = [\<lparr>pk = 1, row_name = ''Ada'', row_email = ''ada@example.com'',
                    row_age = None, created_at = 7, updated_at = 7\<rparr>,
                  \<lparr>pk = 2, row_name = ''Grace'', row_email = ''grace@example.com'',
                    row_age = Some 45, created_at = 8, updated_at = 8\<rparr>],
           next_pk = 3\<rparr> = Inl UniquenessError
   \<and> get 1 \<lparr>rows = [\<lparr>pk = 1, row_name = ''Ada'', row_email = ''ada@example.com'',
                      row_age = None, created_at = 7, updated_at = 7\<rparr>,
                    \<lparr>pk = 2, row_name = ''Grace'', row_email = ''grace@example.com'',
                      row_age = Some 45, created_at = 8, updated_at = 8\<rparr>],
             next_pk = 3\<rparr> =
       Inr \<lparr>pk = 1, row_name = ''Ada'', row_email = ''ada@example.com'', row_age = None,
             created_at = 7, updated_at = 7\<rparr>
   \<and> (\<exists>b1 b2.
         create_user repr_plain
           (JObj [(''name'', JStr ''Ada''), (''email'', JStr ''ada@example.com'')]) =
           Inr (b1, 201)
         \<and> create_user repr_plain
             (JObj [(''name'', JStr ''Augusta''), (''email'', JStr ''ada@example.com'')]) =
             Inr (b2, 201))"
proof -
  let ?r1 = "\<lparr>pk = 1, row_name = ''Ada'', row_email = ''ada@example.com'', row_age = None,
              created_at = 7, updated_at = 7\<rparr>"
  let ?t1 = "\<lparr>rows = [?r1], next_pk = 2\<rparr>"
  have inv: "table_inv empty_table"
    by (simp add: table_inv_def empty_table_def)
  have first: "save 7 (''Ada'', ''ada@example.com'', None) empty_table = Inr (?r1, ?t1)"
    by (simp add: save_def empty_table_def Let_def)
  have between: "save_all [(8, ''Grace'', ''grace@example.com'', Some 45)] ?t1 =
       \<lparr>rows = [?r1,
                \<lparr>pk = 2, row_name = ''Grace'', row_email = ''grace@example.com'',
                  row_age = Some 45, created_at = 8, updated_at = 8\<rparr>],
         next_pk = 3\<rparr>"
    by (simp add: save_def Let_def email_field_def default_options_def)
  from save_same_email_rejected
      [OF inv, of 9 "''Augusta''" "''ada@example.com''" "Some 36" 7 "''Ada''" None
        "[(8, ''Grace'', ''grace@example.com'', Some 45)]"
        "[(''name'', JStr ''Ada''), (''email'', JStr ''ada@example.com'')]"
        "[(''name'', JStr ''Augusta''), (''email'', JStr ''ada@example.com'')]"
        "JStr ''ada@example.com''" repr_plain]
  have all: "(\<forall>r1 t1. save 7 (''Ada'', ''ada@example.com'', None) empty_table = Inr (r1, t1) \<longrightarrow>
               save 9 (''Augusta'', ''ada@example.com'', Some 36)
                 (save_all [(8, ''Grace'', ''grace@example.com'', Some 45)] t1) =
                 Inl UniquenessError
               \<and> get (pk r1) (save_all [(8, ''Grace'', ''grace@example.com'', Some 45)] t1) =
                   Inr r1)"
    and flask: "\<exists>b1 b2.
         create_user repr_plain
           (JObj [(''name'', JStr ''Ada''), (''email'', JStr ''ada@example.com'')]) =
           Inr (b1, 201)
         \<and> create_user repr_plain
             (JObj [(''name'', JStr ''Augusta''), (''email'', JStr ''ada@example.com'')]) =
             Inr (b2, 201)"
    by simp_all
  from all first have
    "save 9 (''Augusta'', ''ada@example.com'', Some 36)
       (save_all [(8, ''Grace'', ''grace@example.com'', Some 45)] ?t1) = Inl UniquenessError
     \<and> get (pk ?r1) (save_all [(8, ''Grace'', ''grace@example.com'', Some 45)] ?t1) = Inr ?r1"
    by (elim allE impE) assumption
  then have second: "save 9 (''Augusta'', ''ada@example.com'', Some 36)
         \<lparr>rows = [?r1,
                  \<lparr>pk = 2, row_name = ''Grace'', row_email = ''grace@example.com'',
                    row_age = Some 45, created_at = 8, updated_at = 8\<rparr>],
           next_pk = 3\<rparr> = Inl UniquenessError"
    and kept: "get 1 \<lparr>rows = [?r1,
                    \<lparr>pk = 2, row_name = ''Grace'', row_email = ''grace@example.com'',
                      row_age = Some 45, created_at = 8, updated_at = 8\<rparr>],
             next_pk = 3\<rparr> = Inr ?r1"
    by (simp_all only: between) simp_all
  from inv first between second kept flask show ?thesis
    by (intro conjI)
qed

section \<open>The order of a listing\<close>

text \<open>
  C8. In the persisted variant every listing holds exactly the stored rows, ordered by
  creation time, latest first: each row was created no earlier than the rows after it. The
  Flask variant stores nothing and has no listing.
\<close>

theorem list_users_descending:
  "sorted_wrt (\<lambda>a b. created_at b \<le> created_at a) (list_users t)
   \<and> mset (list_users t) = mset (rows t)"
  by (simp add: list_users_def ordering_def order_by_key_def sorted_wrt_desc_sort_key)

section \<open>Serialization\<close>

lemma to_dict_call_without_name:
  "to_dict_call [(''email'', JStr ''ada@example.com''), (''age'', JInt 36)] = Inl AttributeError"
  by (simp add: to_dict_call_def py_getattr_def User_class_attrs_def)

text \<open>
  C9. On every valid record the call \<^verbatim>\<open>to_dict()\<close> returns without error, and what it returns
  is the projection \<open>to_dict u\<close>: exactly the keys \<^verbatim>\<open>name\<close>, \<^verbatim>\<open>email\<close> and \<^verbatim>\<open>age\<close>, in this order,
  each with the value of the record's field. The instance after the call is the instance
  before it. The result is determined by the three fields: on any instance whose \<^verbatim>\<open>name\<close>,
  \<^verbatim>\<open>email\<close> and \<^verbatim>\<open>age\<close> read as those of \<open>u\<close>, whatever else it carries, the call returns the
  same mapping and leaves that instance as it was.
\<close>

theorem to_dict_projection:
  "to_dict_call (instance_of u) = Inr (to_dict u, instance_of u)
   \<and> map fst (to_dict u) = [''name'', ''email'', ''age'']
   \<and> map_of (to_dict u) ''name'' = Some (name u)
   \<and> map_of (to_dict u) ''email'' = Some (email u)
   \<and> map_of (to_dict u) ''age'' = Some (age u)
   \<and> (py_getattr self ''name'' = Inr (name u)
        \<and> py_getattr self ''email'' = Inr (email u)
        \<and> py_getattr self ''age'' = Inr (age u)
      \<longrightarrow> to_dict_call self = Inr (to_dict u, self))"
  by (simp add: to_dict_call_def instance_of_def py_getattr_def to_dict_def)

theorem to_dict_projection_witness:
  "py_getattr [(''age'', JInt 36), (''nickname'', JStr ''countess''),
               (''email'', JStr ''ada@example.com''), (''name'', JStr ''Ada'')] ''name'' =
     Inr (JStr ''Ada'')
   \<and> to_dict_call [(''age'', JInt 36), (''nickname'', JStr ''countess''),
                   (''email'', JStr ''ada@example.com''), (''name'', JStr ''Ada'')] =
       Inr ([(''name'', JStr ''Ada''), (''email'', JStr ''ada@example.com''), (''age'', JInt 36)],
            [(''age'', JInt 36), (''nickname'', JStr ''countess''),
             (''email'', JStr ''ada@example.com''), (''name'', JStr ''Ada'')])
   \<and> to_dict_call
         (instance_of \<lparr>name = JStr ''Ada'', email = JStr ''ada@example.com'', age = JInt 36\<rparr>) =
       Inr ([(''name'', JStr ''Ada''), (''email'', JStr ''ada@example.com''), (''age'', JInt 36)],
            [(''name'', JStr ''Ada''), (''email'', JStr ''ada@example.com''), (''age'', JInt 36)])"
  using to_dict_projection
    [of "\<lparr>name = JStr ''Ada'', email = JStr ''ada@example.com'', age = JInt 36\<rparr>"
        "[(''age'', JInt 36), (''nickname'', JStr ''countess''),
          (''email'', JStr ''ada@example.com''), (''name'', JStr ''Ada'')]"]
  by (simp add: py_getattr_def to_dict_def instance_of_def)

section \<open>What the response depends on\<close>

text \<open>
  C10. If two input mappings agree on the keys \<^verbatim>\<open>name\<close>, \<^verbatim>\<open>email\<close> and \<^verbatim>\<open>age\<close> and
  \<^verbatim>\<open>create_user\<close> succeeds on both, then the two response bodies are equal, so are the
  serialized records in them, and the keys of the serialized record are exactly \<^verbatim>\<open>name\<close>,
  \<^verbatim>\<open>email\<close> and \<^verbatim>\<open>age\<close>: no other key of the input reaches the output.
\<close>

theorem create_user_depends_on_three_keys:
  assumes "\<forall>k \<in> {''name'', ''email'', ''age''}. map_of d1 k = map_of d2 k"
    and "create_user q (JObj d1) = Inr (JObj b1, 201)"
    and "create_user q (JObj d2) = Inr (JObj b2, 201)"
  shows "b1 = b2
         \<and> (\<exists>u. map_of b1 ''user'' = Some (JObj u) \<and> map_of b2 ''user'' = Some (JObj u)
                \<and> map fst u = [''name'', ''email'', ''age''])"
proof -
  from assms(1) have "map_of d1 ''name'' = map_of d2 ''name''"
    and "map_of d1 ''email'' = map_of d2 ''email''"
    and "map_of d1 ''age'' = map_of d2 ''age''"
    by simp_all
  then have "create_user q (JObj d1) = create_user q (JObj d2)"
    by (rule create_user_same)
  with assms(2,3) have eq: "b1 = b2" by simp
  from create_user_success_user [OF assms(2)] obtain u
    where u: "map_of b1 ''user'' = Some (JObj (to_dict u))" ..
  have keys: "map fst (to_dict u) = [''name'', ''email'', ''age'']"
    by (simp add: to_dict_def)
  from u eq have u2: "map_of b2 ''user'' = Some (JObj (to_dict u))" by simp
  have "\<exists>v. map_of b1 ''user'' = Some (JObj v) \<and> map_of b2 ''user'' = Some (JObj v)
      \<and> map fst v = [''name'', ''email'', ''age'']"
    by (rule exI [of _ "to_dict u"]) (simp only: u u2 keys)
  with eq show ?thesis by (rule conjI)
qed

theorem create_user_depends_on_three_keys_witness:
  "\<exists>u. map_of [(''message'', JStr ''User Ada created!''),
                 (''user'', JObj [(''name'', JStr ''Ada''), (''email'', JStr ''ada@example.com''),
                                  (''age'', JNull)])] ''user'' = Some (JObj u)
        \<and> map fst u = [''name'', ''email'', ''age'']"
proof -
  let ?d1 = "[(''name'', JStr ''Ada''), (''is_admin'', JBool True),
              (''email'', JStr ''ada@example.com'')]"
  let ?d2 = "[(''email'', JStr ''ada@example.com''), (''name'', JStr ''Ada'')]"
  let ?b = "[(''message'', JStr ''User Ada created!''),
             (''user'', JObj [(''name'', JStr ''Ada''), (''email'', JStr ''ada@example.com''),
                              (''age'', JNull)])]"
  have agree: "\<forall>k \<in> {''name'', ''email'', ''age''}. map_of ?d1 k = map_of ?d2 k"
    by simp
  have run1: "create_user repr_plain (JObj ?d1) = Inr (JObj ?b, 201)"
    by (simp add: create_user_def py_str_def to_dict_def)
  have run2: "create_user repr_plain (JObj ?d2) = Inr (JObj ?b, 201)"
    by (simp add: create_user_def py_str_def to_dict_def)
  from create_user_depends_on_three_keys [OF agree run1 run2]
  obtain u where "map_of ?b ''user'' = Some (JObj u)"
    and "map fst u = [''name'', ''email'', ''age'']"
    by (elim conjE exE)
  then show ?thesis by (intro exI conjI)
qed

end
